theory Spec2Isabelle
  imports Main "HOL-Library.AList" "HOL-Library.Char_ord" "HOL-Library.List_Lexorder"
begin

section \<open>Custom emoji of a federated server: records, validation, usability\<close>

text \<open>
  The development follows \<^verbatim>\<open>activities/models/emoji.py\<close>. A Python \<^verbatim>\<open>str\<close> is a HOL
  \<open>string\<close>: a list of code points below 256. A nullable column is an \<open>option\<close>.
\<close>

subsection \<open>Python truth values\<close>

text \<open>\<^verbatim>\<open>bool(x)\<close> for a value that is \<^verbatim>\<open>None\<close> or a \<^verbatim>\<open>str\<close>: \<^verbatim>\<open>None\<close> and the empty string are
  false. A file field is true when it has a name, so the same test serves for it.\<close>

definition truthy :: "string option \<Rightarrow> bool" where
  "truthy v = (case v of None \<Rightarrow> False | Some s \<Rightarrow> s \<noteq> [])"

subsection \<open>The data model\<close>

text \<open>\<^verbatim>\<open>users.models.Domain\<close>: only its primary key and its \<^verbatim>\<open>local\<close> flag are read here.\<close>

record Domain =
  domain_pk :: string
  domain_local :: bool

text \<open>\<^verbatim>\<open>EmojiStates\<close>: the two declared states.\<close>

datatype State = outdated | updated

text \<open>\<^verbatim>\<open>State(try_interval=300, force_initial=True)\<close> for \<open>outdated\<close>, \<^verbatim>\<open>State()\<close> for
  \<open>updated\<close>.\<close>

fun try_interval :: "State \<Rightarrow> nat option" where
  "try_interval outdated = Some 300"
| "try_interval updated = None"

fun force_initial :: "State \<Rightarrow> bool" where
  "force_initial outdated = True"
| "force_initial updated = False"

text \<open>\<^verbatim>\<open>outdated.transitions_to(updated)\<close> is the only declared transition.\<close>

fun transitions_to :: "State \<Rightarrow> State \<Rightarrow> bool" where
  "transitions_to outdated updated = True"
| "transitions_to _ _ = False"

text \<open>
  The model class \<^verbatim>\<open>Emoji\<close>. \<open>domain\<close> is the foreign-key column (the key of the owning
  domain, or \<open>None\<close>), \<open>public\<close> the nullable boolean, \<open>file'\<close> (the field \<^verbatim>\<open>file\<close>) the name of the stored
  image when there is one. \<open>mimetype\<close> is an \<open>option\<close> because the handler assigns to it whatever
  the fetch returned.
\<close>

record Emoji =
  pk :: "nat option"
  shortcode :: string
  domain :: "string option"
  local :: bool
  public :: "bool option"
  object_uri :: "string option"
  mimetype :: "string option"
  file' :: "string option"
  remote_url :: "string option"
  category :: "string option"
  state :: State

text \<open>\<^verbatim>\<open>Config.system\<close>: the one flag that is read.\<close>

record Config =
  emoji_unreviewed_are_public :: bool

subsection \<open>Validation\<close>

datatype error = ValidationError string | TypeError string

text \<open>\<^verbatim>\<open>Emoji.clean\<close>: \<^verbatim>\<open>self.local ^ (self.domain is None)\<close> is the exclusive or of two
  booleans, that is, their being different.\<close>

definition clean :: "Emoji \<Rightarrow> error + unit" where
  "clean self =
     (if local self \<noteq> (domain self = None)
      then Inl (ValidationError ''Must be local or have a domain'')
      else Inr ())"

subsection \<open>Usability\<close>

text \<open>\<^verbatim>\<open>Emoji.is_usable\<close>: \<^verbatim>\<open>self.public or (self.public is None and flag)\<close>.\<close>

definition is_usable :: "Config \<Rightarrow> Emoji \<Rightarrow> bool" where
  "is_usable system self =
     (if public self = Some True then True
      else (public self = None \<and> emoji_unreviewed_are_public system))"

subsection \<open>URLs and markup\<close>

text \<open>
  \<^verbatim>\<open>core.uris\<close> is not among the sources. Its two constructors that are used are kept as
  constructors; what they resolve to is the storage collaborators' business and is taken
  as a parameter: \<open>file_url\<close> answers \<^verbatim>\<open>self.file.url\<close> for a stored name, \<open>static_url\<close> the
  URL of a static asset.
\<close>

datatype RelativeAbsoluteUrl = AutoAbsoluteUrl string | StaticAbsoluteUrl string

record Storage =
  file_url :: "string \<Rightarrow> string"
  static_url :: "string \<Rightarrow> string"

fun relative :: "Storage \<Rightarrow> RelativeAbsoluteUrl \<Rightarrow> string" where
  "relative st (AutoAbsoluteUrl r) = r"
| "relative st (StaticAbsoluteUrl path) = static_url st path"

text \<open>\<^verbatim>\<open>str(n)\<close> for a natural number, and \<^verbatim>\<open>f"{self.pk}"\<close> for a key that may be \<^verbatim>\<open>None\<close>.\<close>

fun str_nat :: "nat \<Rightarrow> string" where
  "str_nat n =
     (if n < 10 then [char_of (48 + n)]
      else str_nat (n div 10) @ [char_of (48 + n mod 10)])"

declare str_nat.simps [simp del]

definition str_pk :: "nat option \<Rightarrow> string" where
  "str_pk k = (case k of None \<Rightarrow> ''None'' | Some n \<Rightarrow> str_nat n)"

text \<open>\<^verbatim>\<open>Emoji.fullcode\<close>.\<close>

definition fullcode :: "Emoji \<Rightarrow> string" where
  "fullcode self = '':'' @ shortcode self @ '':''"

text \<open>\<^verbatim>\<open>Emoji.full_url\<close>: the inner \<^verbatim>\<open>if\<close>/\<^verbatim>\<open>elif\<close> has no \<^verbatim>\<open>else\<close>, so a usable record with
  neither file nor remote URL falls through to the last \<^verbatim>\<open>return\<close>.\<close>

definition full_url :: "Config \<Rightarrow> Storage \<Rightarrow> Emoji \<Rightarrow> RelativeAbsoluteUrl" where
  "full_url system st self =
     (if is_usable system self then
        (case (if truthy (file' self) then file' self else None) of
           Some name \<Rightarrow> AutoAbsoluteUrl (file_url st name)
         | None \<Rightarrow>
             if truthy (remote_url self)
             then AutoAbsoluteUrl (''/proxy/emoji/'' @ str_pk (pk self) @ ''/'')
             else StaticAbsoluteUrl ''img/blank-emoji-128.png'')
      else StaticAbsoluteUrl ''img/blank-emoji-128.png'')"

text \<open>\<^verbatim>\<open>mark_safe\<close> tags a string as safe markup and leaves its characters alone.\<close>

definition mark_safe :: "string \<Rightarrow> string" where
  "mark_safe s = s"

text \<open>\<^verbatim>\<open>Emoji.as_html\<close>.\<close>

definition as_html :: "Config \<Rightarrow> Storage \<Rightarrow> Emoji \<Rightarrow> string" where
  \<open>as_html system st self =
     (if is_usable system self then
        mark_safe (''<img src="'' @ relative st (full_url system st self)
                   @ ''" class="emoji" alt="Emoji '' @ shortcode self @ ''">'')
      else fullcode self)\<close>

subsection \<open>The handler of the state \<open>outdated\<close>\<close>

text \<open>
  \<^verbatim>\<open>settings.SETUP\<close> and \<^verbatim>\<open>core.files.get_remote_file\<close> are not among the sources. The two
  settings are fields of a record, the fetcher is a parameter: called with the URL, the
  timeout and the size limit, it answers the pair that the handler unpacks (a file
  or \<^verbatim>\<open>None\<close>, a media type or \<^verbatim>\<open>None\<close>).
\<close>

record 't SETUP =
  REMOTE_TIMEOUT :: 't
  EMOJI_MAX_IMAGE_FILESIZE_KB :: int

type_synonym 't remote_file = "string \<Rightarrow> 't \<Rightarrow> int \<Rightarrow> string option \<times> string option"

text \<open>What the handler does besides returning: the calls of the fetcher it made, and the
  records written by \<^verbatim>\<open>instance.save()\<close>, both oldest first.\<close>

record 't World =
  requests :: "(string \<times> 't \<times> int) list"
  saves :: "Emoji list"

text \<open>\<^verbatim>\<open>EmojiStates.handle_outdated\<close>. The result is the state returned, the instance as the
  handler leaves it, and the world.\<close>

definition handle_outdated ::
  "'t SETUP \<Rightarrow> 't remote_file \<Rightarrow> Emoji \<Rightarrow> 't World \<Rightarrow> State \<times> Emoji \<times> 't World" where
  "handle_outdated setup get_remote_file instance w =
     (case (if truthy (remote_url instance) \<and> \<not> truthy (file' instance)
            then remote_url instance else None) of
        Some url \<Rightarrow>
          (let timeout = REMOTE_TIMEOUT setup;
               max_size = EMOJI_MAX_IMAGE_FILESIZE_KB setup * 1024;
               (file, mime) = get_remote_file url timeout max_size;
               w1 = w\<lparr>requests := requests w @ [(url, timeout, max_size)]\<rparr>
           in if truthy file then
                (let instance1 = instance\<lparr>file' := file, mimetype := mime\<rparr>
                 in (updated, instance1, w1\<lparr>saves := saves w1 @ [instance1]\<rparr>))
              else (updated, instance, w1))
      | None \<Rightarrow> (updated, instance, w))"

text \<open>
  Modelled from the spec: the state machine driver (\<^verbatim>\<open>stator.models\<close> is not among the
  sources). For an entity whose state has a handler it invokes the handler and applies
  the returned target state, which must be a declared transition; otherwise the entity
  stays in its state and is due again after the try interval. \<open>updated\<close> has no handler.
\<close>

definition transition_attempt ::
  "'t SETUP \<Rightarrow> 't remote_file \<Rightarrow> Emoji \<Rightarrow> 't World \<Rightarrow> Emoji \<times> 't World" where
  "transition_attempt setup get_remote_file instance w =
     (case state instance of
        updated \<Rightarrow> (instance, w)
      | outdated \<Rightarrow>
          (let (next_state, instance1, w1) = handle_outdated setup get_remote_file instance w
           in if transitions_to outdated next_state
              then (instance1\<lparr>state := next_state\<rparr>, w1)
              else (instance1, w1)))"

subsection \<open>The pattern \<^verbatim>\<open>\B:([a-zA-Z0-9(_)-]+):\B\<close>\<close>

text \<open>
  \<^verbatim>\<open>emoji_regex\<close> is a \<^verbatim>\<open>str\<close> pattern, so \<^verbatim>\<open>\w\<close> is the Unicode class: alphanumeric code
  points and the underscore. Below 256 these are the ASCII letters and digits, the
  underscore, and the listed code points of Latin-1.
\<close>

definition ord :: "char \<Rightarrow> nat" where
  "ord c = of_char c"

definition is_word :: "char \<Rightarrow> bool" where
  "is_word c =
     (let n = ord c in
        (48 \<le> n \<and> n \<le> 57) \<or> (65 \<le> n \<and> n \<le> 90) \<or> n = 95 \<or> (97 \<le> n \<and> n \<le> 122)
        \<or> n = 170 \<or> n = 178 \<or> n = 179 \<or> n = 181 \<or> n = 185 \<or> n = 186
        \<or> (188 \<le> n \<and> n \<le> 190) \<or> (192 \<le> n \<and> n \<le> 214) \<or> (216 \<le> n \<and> n \<le> 246)
        \<or> 248 \<le> n)"

text \<open>The character class \<^verbatim>\<open>[a-zA-Z0-9(_)-]\<close>: letters, digits, the two parentheses, the
  underscore and the hyphen.\<close>

definition emoji_class :: "char \<Rightarrow> bool" where
  "emoji_class c =
     (let n = ord c in
        (97 \<le> n \<and> n \<le> 122) \<or> (65 \<le> n \<and> n \<le> 90) \<or> (48 \<le> n \<and> n \<le> 57)
        \<or> c = CHR ''('' \<or> c = CHR ''_'' \<or> c = CHR '')'' \<or> c = CHR ''-'')"

text \<open>The character at a position, \<open>None\<close> outside the text; positions outside the text
  count as non-word.\<close>

definition head :: "string \<Rightarrow> char option" where
  "head s = (case s of [] \<Rightarrow> None | c # _ \<Rightarrow> Some c)"

definition word_at :: "char option \<Rightarrow> bool" where
  "word_at c = (case c of None \<Rightarrow> False | Some x \<Rightarrow> is_word x)"

text \<open>\<^verbatim>\<open>\B\<close> between the previous character and the next one: both are word
  characters or neither is.\<close>

definition not_boundary :: "char option \<Rightarrow> char option \<Rightarrow> bool" where
  "not_boundary prev next = (word_at prev = word_at next)"

text \<open>
  One attempt of the pattern at the start of \<open>s\<close>, with \<open>prev\<close> the character before it:
  the group and the text after the match. The class does not contain the colon, so the
  greedy \<^verbatim>\<open>+\<close> takes the whole run of class characters and a shorter run cannot be
  followed by a colon: there is nothing to gain by backtracking.
\<close>

definition match_here :: "char option \<Rightarrow> string \<Rightarrow> (string \<times> string) option" where
  "match_here prev s =
     (if \<not> not_boundary prev (head s) then None
      else case s of
        [] \<Rightarrow> None
      | c # t \<Rightarrow>
          if c \<noteq> CHR '':'' then None
          else (let code = takeWhile emoji_class t; r = dropWhile emoji_class t
                in if code = [] then None
                   else case r of
                     [] \<Rightarrow> None
                   | d # u \<Rightarrow>
                       if d = CHR '':'' \<and> not_boundary (Some d) (head u)
                       then Some (code, u) else None))"

text \<open>\<^verbatim>\<open>match.group()\<close> of a match whose group is \<open>code\<close>.\<close>

definition group0 :: "string \<Rightarrow> string" where
  "group0 code = '':'' @ code @ '':''"

text \<open>
  The scan that \<^verbatim>\<open>findall\<close> and \<^verbatim>\<open>sub\<close> share: the leftmost non-overlapping matches, with
  the characters between them. After a match the search resumes behind it; where the
  pattern does not match, the character is passed over and the search moves on by one.
\<close>

datatype piece = Literal char | Match string

function scan_from :: "char option \<Rightarrow> string \<Rightarrow> piece list" where
  "scan_from prev [] = []"
| "scan_from prev (c # t) =
     (case match_here prev (c # t) of
        Some (code, rest) \<Rightarrow> Match code # scan_from (Some CHR '':'') rest
      | None \<Rightarrow> Literal c # scan_from (Some c) t)"
  by pat_completeness auto
termination
proof (relation "measure (\<lambda>(prev, s). length s)")
  show "wf (measure (\<lambda>(prev :: char option, s :: string). length s))"
    by simp
next
  fix prev :: "char option" and c :: char and t :: string
  show "((Some c, t), (prev, c # t)) \<in> measure (\<lambda>(prev, s). length s)"
    by simp
next
  fix prev :: "char option" and c :: char and t :: string
    and m :: "string \<times> string" and code rest :: string
  assume m: "match_here prev (c # t) = Some m" and cr: "(code, rest) = m"
  from m cr obtain d where "dropWhile emoji_class t = d # rest"
    by (auto simp: match_here_def Let_def split: if_splits list.splits)
  then have "Suc (length rest) = length (dropWhile emoji_class t)"
    by simp
  also have "\<dots> \<le> length t"
    by (rule length_dropWhile_le)
  finally show "((Some CHR '':'', rest), (prev, c # t)) \<in> measure (\<lambda>(prev, s). length s)"
    by simp
qed

declare scan_from.simps(2) [simp del]

definition scan :: "string \<Rightarrow> piece list" where
  "scan s = scan_from None s"

text \<open>\<^verbatim>\<open>emoji_regex.findall(s)\<close>: the groups of the matches, in order.\<close>

definition findall :: "string \<Rightarrow> string list" where
  "findall s = concat (map (\<lambda>p. case p of Literal c \<Rightarrow> [] | Match code \<Rightarrow> [code]) (scan s))"

text \<open>\<^verbatim>\<open>emoji_regex.sub(repl, s)\<close>: every match replaced by what \<open>repl\<close> answers for it, the
  rest copied. The match is handed over as its group.\<close>

definition replace_piece :: "(string \<Rightarrow> string) \<Rightarrow> piece \<Rightarrow> string" where
  "replace_piece repl p = (case p of Literal c \<Rightarrow> [c] | Match code \<Rightarrow> repl code)"

definition sub :: "(string \<Rightarrow> string) \<Rightarrow> string \<Rightarrow> string" where
  "sub repl s = concat (map (replace_piece repl) (scan s))"


text \<open>\<^verbatim>\<open>str.lower\<close> on code points below 256.\<close>

definition lower_char :: "char \<Rightarrow> char" where
  "lower_char c =
     (let n = ord c in
        if (65 \<le> n \<and> n \<le> 90) \<or> (192 \<le> n \<and> n \<le> 214) \<or> (216 \<le> n \<and> n \<le> 222)
        then char_of (n + 32) else c)"

definition lower :: "string \<Rightarrow> string" where
  "lower s = map lower_char s"

subsection \<open>Queries\<close>

text \<open>A query set is the list of its rows; \<^verbatim>\<open>filter\<close> keeps the rows that satisfy the
  condition.\<close>

type_synonym EmojiQuerySet = "Emoji list"

text \<open>\<^verbatim>\<open>domain is None or domain.local\<close>, which the source writes twice.\<close>

definition scope_local :: "Domain option \<Rightarrow> bool" where
  "scope_local d = (case d of None \<Rightarrow> True | Some x \<Rightarrow> domain_local x)"

text \<open>\<^verbatim>\<open>EmojiQuerySet.usable\<close>. A model instance is always true as a condition, so
  \<^verbatim>\<open>if domain:\<close> asks whether a domain was given.\<close>

definition usable :: "Config \<Rightarrow> EmojiQuerySet \<Rightarrow> Domain option \<Rightarrow> EmojiQuerySet" where
  "usable system self d =
     (let visible_q =
            (if scope_local d then (\<lambda>e. local e = True)
             else if emoji_unreviewed_are_public system
                  then (\<lambda>e. public e = Some True \<or> public e = None)
                  else (\<lambda>e. public e = Some True));
          qs = filter visible_q self
      in case d of
           None \<Rightarrow> qs
         | Some x \<Rightarrow>
             if \<not> domain_local x then filter (\<lambda>e. domain e = Some (domain_pk x)) qs
             else qs)"

text \<open>The first two statements of \<^verbatim>\<open>Emoji.emojis_from_content\<close>: the sorted short codes.
  \<^verbatim>\<open>core.html.strip_html\<close> is not among the sources and is a parameter.\<close>

definition shortcodes_from_content :: "(string \<Rightarrow> string) \<Rightarrow> string \<Rightarrow> string list" where
  "shortcodes_from_content strip_html content =
     (let emoji_hits = findall (strip_html content)
      in sorted_list_of_set (set (map lower emoji_hits)))"

text \<open>\<^verbatim>\<open>Emoji.emojis_from_content\<close>, with \<open>objects\<close> the rows of the table.\<close>

definition emojis_from_content ::
  "Config \<Rightarrow> (string \<Rightarrow> string) \<Rightarrow> EmojiQuerySet \<Rightarrow> string \<Rightarrow> Domain option \<Rightarrow> Emoji list" where
  "emojis_from_content system strip_html objects content d =
     (let emojis = shortcodes_from_content strip_html content
      in filter (\<lambda>e. shortcode e \<in> set emojis)
           (usable system (filter (\<lambda>e. local e = scope_local d) objects) d))"

subsection \<open>Rendering\<close>

text \<open>
  The values that may arrive as the keyword argument \<^verbatim>\<open>emojis\<close>: the three that the
  signature names, and values of other types.
\<close>

datatype emojis_arg =
    PyNone
  | PyList "Emoji list"
  | PyQuerySet EmojiQuerySet
  | PyTuple "Emoji list"
  | PyStr string
  | PyInt int

text \<open>\<^verbatim>\<open>bool(emojis)\<close>: empty containers, the empty string, zero and \<^verbatim>\<open>None\<close> are false.\<close>

fun py_bool :: "emojis_arg \<Rightarrow> bool" where
  "py_bool PyNone = False"
| "py_bool (PyList xs) = (xs \<noteq> [])"
| "py_bool (PyQuerySet xs) = (xs \<noteq> [])"
| "py_bool (PyTuple xs) = (xs \<noteq> [])"
| "py_bool (PyStr s) = (s \<noteq> [])"
| "py_bool (PyInt n) = (n \<noteq> 0)"

text \<open>\<^verbatim>\<open>isinstance(emojis, (EmojiQuerySet, list))\<close>, with the rows when it holds.\<close>

fun list_or_query_set :: "emojis_arg \<Rightarrow> Emoji list option" where
  "list_or_query_set (PyList xs) = Some xs"
| "list_or_query_set (PyQuerySet xs) = Some xs"
| "list_or_query_set _ = None"

text \<open>
  The dictionary comprehension that builds \<^verbatim>\<open>possible_matches\<close>. A dictionary is an
  association list in insertion order; storing under a key that is present replaces
  the value in place, which is \<open>AList.update\<close>.
\<close>

definition possible_matches :: "Config \<Rightarrow> Storage \<Rightarrow> Emoji list \<Rightarrow> (string \<times> string) list" where
  "possible_matches system st emoji_set =
     foldl (\<lambda>d emoji. AList.update (shortcode emoji) (as_html system st emoji) d) []
       (filter (is_usable system) emoji_set)"

text \<open>The inner function \<^verbatim>\<open>replacer\<close>, applied to the group of a match.\<close>

definition replacer :: "(string \<times> string) list \<Rightarrow> string \<Rightarrow> string" where
  "replacer matches code =
     (let fullcode = lower code
      in case map_of matches fullcode of
           Some html \<Rightarrow> html
         | None \<Rightarrow> group0 code)"

text \<open>The first half of \<^verbatim>\<open>Emoji.imageify_emojis\<close>, with \<open>locals\<close> the class attribute
  \<^verbatim>\<open>Emoji.locals\<close>: the records to choose from, or the type error.\<close>

definition build_emoji_set :: "(string \<times> Emoji) list \<Rightarrow> emojis_arg \<Rightarrow> bool \<Rightarrow> error + Emoji list" where
  "build_emoji_set locals emojis include_local =
     (let emoji_set = (if include_local then map snd locals else [])
      in if py_bool emojis then
           (case list_or_query_set emojis of
              Some rows \<Rightarrow> Inr (emoji_set @ rows)
            | None \<Rightarrow> Inl (TypeError ''Unsupported type for emojis''))
         else Inr emoji_set)"

text \<open>\<^verbatim>\<open>Emoji.imageify_emojis\<close>.\<close>

definition imageify_emojis ::
  "Config \<Rightarrow> Storage \<Rightarrow> (string \<times> Emoji) list \<Rightarrow> string \<Rightarrow> emojis_arg \<Rightarrow> bool
     \<Rightarrow> error + string" where
  "imageify_emojis system st locals content emojis include_local =
     (case build_emoji_set locals emojis include_local of
        Inl e \<Rightarrow> Inl e
      | Inr emoji_set \<Rightarrow>
          Inr (mark_safe (sub (replacer (possible_matches system st emoji_set)) content)))"

subsection \<open>Sample data\<close>

text \<open>Concrete values at which the theorems below are instantiated.\<close>

definition sample_storage :: Storage where
  "sample_storage =
     \<lparr>file_url = (\<lambda>name. ''/media/'' @ name), static_url = (\<lambda>path. ''/static/'' @ path)\<rparr>"

definition sample_setup :: "nat SETUP" where
  "sample_setup = \<lparr>REMOTE_TIMEOUT = 5, EMOJI_MAX_IMAGE_FILESIZE_KB = 1000\<rparr>"

definition no_effects :: "nat World" where
  "no_effects = \<lparr>requests = [], saves = []\<rparr>"

definition strict_config :: Config where
  "strict_config = \<lparr>emoji_unreviewed_are_public = False\<rparr>"

text \<open>A remote emoji that has not been fetched yet.\<close>

definition remote_emoji :: Emoji where
  "remote_emoji =
     \<lparr>pk = Some 7, shortcode = ''smile'', domain = Some ''remote.example'', local = False,
      public = Some True, object_uri = Some ''https://remote.example/emoji/smile'',
      mimetype = Some ''image/png'', file' = None,
      remote_url = Some ''https://remote.example/smile.png'', category = None,
      state = outdated\<rparr>"

text \<open>A local emoji that the administrator has hidden.\<close>

definition hidden_local_emoji :: Emoji where
  "hidden_local_emoji =
     \<lparr>pk = Some 3, shortcode = ''smile'', domain = None, local = True,
      public = Some False, object_uri = None,
      mimetype = Some ''image/png'', file' = Some ''emoji/smile.png'',
      remote_url = None, category = None, state = updated\<rparr>"


text \<open>Two fetchers: one that fails and one that succeeds.\<close>

definition failing_fetch :: "nat remote_file" where
  "failing_fetch url timeout max_size = (None, None)"

definition working_fetch :: "nat remote_file" where
  "working_fetch url timeout max_size = (Some url, Some ''image/png'')"

section \<open>Theorems\<close>

text \<open>
  C5. Validation of a record succeeds exactly when its \<open>local\<close> flag equals
  ``the domain is null''; a local record with a domain and a non-local record without
  one are both rejected with the validation error.
\<close>

theorem clean_ok_iff_local_eq_domain_null:
  "(clean e = Inr ()) = (local e = (domain e = None))
   \<and> (clean (e\<lparr>local := True, domain := Some d\<rparr>)
        = Inl (ValidationError ''Must be local or have a domain''))
   \<and> (clean (e\<lparr>local := False, domain := None\<rparr>)
        = Inl (ValidationError ''Must be local or have a domain''))"
  by (simp add: clean_def)

text \<open>
  C6. A record is usable exactly when its visibility flag is explicitly public, or it is
  unset and the global flag for unreviewed emoji is true; so a record with unset
  visibility is usable exactly when the global flag is true.
\<close>

theorem is_usable_iff_public_or_unset_and_flag:
  "is_usable system e
     = (public e = Some True \<or> (public e = None \<and> emoji_unreviewed_are_public system))
   \<and> is_usable system (e\<lparr>public := None\<rparr>) = emoji_unreviewed_are_public system"
  by (simp add: is_usable_def split: option.split bool.split)

subsection \<open>The handler\<close>

text \<open>
  C4. For a record in state \<open>outdated\<close> that has a cached file, or has no remote URL, the
  handler returns \<open>updated\<close> and the driver moves the record there; the fetcher is not
  called, nothing is saved, and the record is otherwise as it was.
\<close>

theorem handle_outdated_nothing_to_fetch:
  assumes "state e = outdated"
    and "truthy (file' e) \<or> \<not> truthy (remote_url e)"
  shows "handle_outdated setup fetch e w = (updated, e, w)
         \<and> transition_attempt setup fetch e w = (e\<lparr>state := updated\<rparr>, w)"
proof -
  from assms(2)
  have none: "(if truthy (remote_url e) \<and> \<not> truthy (file' e) then remote_url e else None) = None"
    by auto
  have h: "handle_outdated setup fetch e w = (updated, e, w)"
    unfolding handle_outdated_def none by simp
  with assms(1) show ?thesis
    by (simp add: transition_attempt_def)
qed

theorem handle_outdated_nothing_to_fetch_witness:
  "handle_outdated sample_setup working_fetch (hidden_local_emoji\<lparr>state := outdated\<rparr>) no_effects
     = (updated, hidden_local_emoji\<lparr>state := outdated\<rparr>, no_effects)
   \<and> transition_attempt sample_setup working_fetch (hidden_local_emoji\<lparr>state := outdated\<rparr>)
       no_effects
     = (hidden_local_emoji\<lparr>state := updated\<rparr>, no_effects)"
  using handle_outdated_nothing_to_fetch
    [of "hidden_local_emoji\<lparr>state := outdated\<rparr>" sample_setup working_fetch no_effects]
  by (simp add: hidden_local_emoji_def truthy_def)

text \<open>
  C10. For a record in state \<open>outdated\<close> with a remote URL and no cached file, when the
  fetch returns no file the handler leaves the record as it was, file and media type
  included, and saves nothing.
\<close>

theorem handle_outdated_failed_fetch_frame:
  assumes "state e = outdated"
    and "remote_url e = Some url" and "url \<noteq> []" and "\<not> truthy (file' e)"
    and "\<not> truthy (fst (fetch url (REMOTE_TIMEOUT setup)
                          (EMOJI_MAX_IMAGE_FILESIZE_KB setup * 1024)))"
  shows "fst (snd (handle_outdated setup fetch e w)) = e
         \<and> file' (fst (snd (handle_outdated setup fetch e w))) = file' e
         \<and> mimetype (fst (snd (handle_outdated setup fetch e w))) = mimetype e
         \<and> saves (snd (snd (handle_outdated setup fetch e w))) = saves w"
proof -
  from assms(2-4)
  have some: "(if truthy (remote_url e) \<and> \<not> truthy (file' e) then remote_url e else None)
                = Some url"
    by (simp add: truthy_def)
  obtain f m where fm:
    "fetch url (REMOTE_TIMEOUT setup) (EMOJI_MAX_IMAGE_FILESIZE_KB setup * 1024) = (f, m)"
    by (cases "fetch url (REMOTE_TIMEOUT setup) (EMOJI_MAX_IMAGE_FILESIZE_KB setup * 1024)")
  with assms(5) have "\<not> truthy f"
    by simp
  then have "handle_outdated setup fetch e w
               = (updated, e, w\<lparr>requests := requests w
                    @ [(url, REMOTE_TIMEOUT setup, EMOJI_MAX_IMAGE_FILESIZE_KB setup * 1024)]\<rparr>)"
    unfolding handle_outdated_def some by (simp add: fm Let_def)
  then show ?thesis
    by simp
qed

theorem handle_outdated_failed_fetch_frame_witness:
  "fst (snd (handle_outdated sample_setup failing_fetch remote_emoji no_effects)) = remote_emoji
   \<and> file' (fst (snd (handle_outdated sample_setup failing_fetch remote_emoji no_effects))) = None
   \<and> mimetype (fst (snd (handle_outdated sample_setup failing_fetch remote_emoji no_effects)))
       = Some ''image/png''
   \<and> saves (snd (snd (handle_outdated sample_setup failing_fetch remote_emoji no_effects))) = []"
  using handle_outdated_failed_fetch_frame
    [of remote_emoji "''https://remote.example/smile.png''" failing_fetch sample_setup no_effects]
  by (simp add: remote_emoji_def truthy_def failing_fetch_def no_effects_def)

text \<open>
  C1, as the code has it. For a record in state \<open>outdated\<close> with a remote URL and no
  cached file the handler calls the fetcher once. When a file comes back, the file and the
  media type are stored on the record, the record is saved, and it moves to \<open>updated\<close>.
  When no file comes back, the record is left as it was and is not saved, and it moves to
  \<open>updated\<close> all the same: the handler returns \<open>updated\<close> in every case.
\<close>

theorem handle_outdated_fetch_then_updated:
  assumes "state e = outdated"
    and "remote_url e = Some url" and "url \<noteq> []" and "\<not> truthy (file' e)"
    and "fetch url (REMOTE_TIMEOUT setup) (EMOJI_MAX_IMAGE_FILESIZE_KB setup * 1024) = (f, m)"
  shows "handle_outdated setup fetch e w =
           (if truthy f
            then (updated, e\<lparr>file' := f, mimetype := m\<rparr>,
                  w\<lparr>requests := requests w
                       @ [(url, REMOTE_TIMEOUT setup, EMOJI_MAX_IMAGE_FILESIZE_KB setup * 1024)],
                    saves := saves w @ [e\<lparr>file' := f, mimetype := m\<rparr>]\<rparr>)
            else (updated, e,
                  w\<lparr>requests := requests w
                       @ [(url, REMOTE_TIMEOUT setup, EMOJI_MAX_IMAGE_FILESIZE_KB setup * 1024)]\<rparr>))
         \<and> state (fst (transition_attempt setup fetch e w)) = updated"
proof -
  from assms(2-4)
  have some: "(if truthy (remote_url e) \<and> \<not> truthy (file' e) then remote_url e else None)
                = Some url"
    by (simp add: truthy_def)
  have h: "handle_outdated setup fetch e w =
           (if truthy f
            then (updated, e\<lparr>file' := f, mimetype := m\<rparr>,
                  w\<lparr>requests := requests w
                       @ [(url, REMOTE_TIMEOUT setup, EMOJI_MAX_IMAGE_FILESIZE_KB setup * 1024)],
                    saves := saves w @ [e\<lparr>file' := f, mimetype := m\<rparr>]\<rparr>)
            else (updated, e,
                  w\<lparr>requests := requests w
                       @ [(url, REMOTE_TIMEOUT setup, EMOJI_MAX_IMAGE_FILESIZE_KB setup * 1024)]\<rparr>))"
    unfolding handle_outdated_def some by (simp add: assms(5) Let_def)
  have "state (fst (transition_attempt setup fetch e w)) = updated"
    unfolding transition_attempt_def h using assms(1) by simp
  with h show ?thesis
    by simp
qed

theorem handle_outdated_fetch_then_updated_witness:
  "handle_outdated sample_setup working_fetch remote_emoji no_effects =
     (updated,
      remote_emoji\<lparr>file' := Some ''https://remote.example/smile.png'',
                   mimetype := Some ''image/png''\<rparr>,
      \<lparr>requests = [(''https://remote.example/smile.png'', 5, 1024000)],
       saves = [remote_emoji\<lparr>file' := Some ''https://remote.example/smile.png'',
                             mimetype := Some ''image/png''\<rparr>]\<rparr>)
   \<and> state (fst (transition_attempt sample_setup working_fetch remote_emoji no_effects)) = updated"
  using handle_outdated_fetch_then_updated
    [of remote_emoji "''https://remote.example/smile.png''" working_fetch sample_setup
        "Some ''https://remote.example/smile.png''" "Some ''image/png''" no_effects]
  by (simp add: remote_emoji_def truthy_def working_fetch_def no_effects_def sample_setup_def)

text \<open>
  C1, as the claim has it, fails: after a failed fetch the record does not stay in
  \<open>outdated\<close>. The handler returns \<open>updated\<close> and the driver moves the record there.
\<close>

theorem handle_outdated_failed_fetch_counterexample:
  "fst (handle_outdated sample_setup failing_fetch remote_emoji no_effects) = updated
   \<and> state (fst (transition_attempt sample_setup failing_fetch remote_emoji no_effects))
       \<noteq> outdated"
  by (simp add: handle_outdated_def transition_attempt_def remote_emoji_def truthy_def
      failing_fetch_def Let_def)

subsection \<open>Markup of one record\<close>

text \<open>
  C9. A usable record with no cached file and no remote URL is rendered as image markup
  that points to the static placeholder image; a record that is not usable is rendered
  as its short code between colons.
\<close>

theorem as_html_placeholder_or_literal:
  \<open>(is_usable system e \<and> \<not> truthy (file' e) \<and> \<not> truthy (remote_url e) \<longrightarrow>
       full_url system st e = StaticAbsoluteUrl ''img/blank-emoji-128.png''
       \<and> as_html system st e =
           ''<img src="'' @ static_url st ''img/blank-emoji-128.png''
           @ ''" class="emoji" alt="Emoji '' @ shortcode e @ ''">'')
   \<and> (\<not> is_usable system e \<longrightarrow> as_html system st e = '':'' @ shortcode e @ '':'')\<close>
  by (simp add: as_html_def full_url_def fullcode_def mark_safe_def)

theorem as_html_placeholder_or_literal_witness:
  \<open>as_html strict_config sample_storage (remote_emoji\<lparr>remote_url := None\<rparr>) =
     ''<img src="/static/img/blank-emoji-128.png" class="emoji" alt="Emoji smile">''
   \<and> as_html strict_config sample_storage hidden_local_emoji = '':smile:''\<close>
  using as_html_placeholder_or_literal
      [of strict_config "remote_emoji\<lparr>remote_url := None\<rparr>" sample_storage]
    as_html_placeholder_or_literal [of strict_config hidden_local_emoji sample_storage]
  by (simp add: is_usable_def truthy_def remote_emoji_def hidden_local_emoji_def
      strict_config_def sample_storage_def)

subsection \<open>Looking records up\<close>

text \<open>
  C2, as the code has it. For a remote scope the records returned are exactly the
  records of that domain that satisfy the visibility policy (and, in the lookup from a
  text, are not local and carry one of the extracted short codes). For an absent or a
  local scope they are exactly the local records, whatever their visibility.
\<close>

theorem usable_by_scope:
  "set (usable system qs d) =
     {e \<in> set qs.
        case d of
          None \<Rightarrow> local e
        | Some x \<Rightarrow>
            if domain_local x then local e
            else is_usable system e \<and> domain e = Some (domain_pk x)}
   \<and> set (emojis_from_content system strip_html objects content d) =
     {e \<in> set objects.
        shortcode e \<in> set (shortcodes_from_content strip_html content)
        \<and> (case d of
             None \<Rightarrow> local e
           | Some x \<Rightarrow>
               if domain_local x then local e
               else \<not> local e \<and> is_usable system e \<and> domain e = Some (domain_pk x))}"
proof -
  have u: "set (usable system qs d) =
     {e \<in> set qs.
        case d of
          None \<Rightarrow> local e
        | Some x \<Rightarrow>
            if domain_local x then local e
            else is_usable system e \<and> domain e = Some (domain_pk x)}" for qs
    by (cases d) (auto simp: usable_def scope_local_def is_usable_def Let_def)
  have "set (emojis_from_content system strip_html objects content d) =
     {e \<in> set objects.
        shortcode e \<in> set (shortcodes_from_content strip_html content)
        \<and> (case d of
             None \<Rightarrow> local e
           | Some x \<Rightarrow>
               if domain_local x then local e
               else \<not> local e \<and> is_usable system e \<and> domain e = Some (domain_pk x))}"
    unfolding emojis_from_content_def Let_def set_filter u
    by (cases d) (auto simp: scope_local_def)
  with u show ?thesis
    by simp
qed

text \<open>
  C2, as the claim has it, fails: for an absent scope the lookup returns a local record
  that the visibility policy rejects.
\<close>

theorem usable_local_scope_counterexample:
  "\<not> is_usable strict_config hidden_local_emoji
   \<and> usable strict_config [hidden_local_emoji] None = [hidden_local_emoji]
   \<and> emojis_from_content strict_config (\<lambda>s. s) [hidden_local_emoji] '':smile:'' None
       = [hidden_local_emoji]"
  by code_simp

subsection \<open>The argument \<^verbatim>\<open>emojis\<close> of the renderer\<close>

text \<open>
  C3, as the code has it. A value that is neither a list nor a query set raises the type
  error when it is true as a condition; when it is false (\<^verbatim>\<open>None\<close>, an empty tuple, the
  empty string, zero) it is taken as absent and the text is rendered without it.
\<close>

theorem imageify_emojis_unsupported_type:
  assumes "list_or_query_set a = None"
  shows "imageify_emojis system st locals content a include_local =
           (if py_bool a then Inl (TypeError ''Unsupported type for emojis'')
            else imageify_emojis system st locals content PyNone include_local)"
  using assms by (simp add: imageify_emojis_def build_emoji_set_def Let_def)

theorem imageify_emojis_unsupported_type_witness:
  "imageify_emojis strict_config sample_storage [] ''Hi :smile:'' (PyTuple [remote_emoji]) True
     = Inl (TypeError ''Unsupported type for emojis'')"
  using imageify_emojis_unsupported_type
    [of "PyTuple [remote_emoji]" strict_config sample_storage "[]" "''Hi :smile:''" True]
  by simp

text \<open>
  C3, as the claim has it, fails: an empty tuple is neither \<^verbatim>\<open>None\<close>, a list nor a query
  set, and the renderer returns the text instead of raising.
\<close>

theorem imageify_emojis_empty_tuple_counterexample:
  "imageify_emojis strict_config sample_storage [] ''Hi :smile:'' (PyTuple []) True
     = Inr ''Hi :smile:''"
  by code_simp

subsection \<open>Properties of the scan\<close>




















subsection \<open>Extracting short codes\<close>



subsection \<open>Rendering a text\<close>



end
